theory Spec2Isabelle
  imports Complex_Main "HOL-Library.Option_ord"
begin

section \<open>Stepped-frequency time-domain IQ acquisition\<close>

text \<open>
  A shallow embedding of \<^verbatim>\<open>SteppedFrequencyTimeDomainIqAcquisition\<close> from
  \<^verbatim>\<open>scos_actions/actions/acquire_stepped_freq_tdomain_iq.py\<close>: the constructor
  \<^verbatim>\<open>__init__\<close>, the entry point \<^verbatim>\<open>__call__\<close> and the property
  \<^verbatim>\<open>description\<close>.

  Python numbers (the frequencies, gains, sample rates and durations are ints or floats)
  are exact rationals here: the order of the frequencies and the arithmetic of the
  description are those of the mathematical values, without floating-point rounding.
  Where a float quotient or product is not exact the code can truncate to the integer
  below (249 ms at 1 MHz: \<^verbatim>\<open>int(249 / 1e6 * 1000000)\<close> is 248, the exact value
  249), and \<^verbatim>\<open>np.sum\<close> of Python ints is a 64-bit sum where \<open>sum_list\<close> is
  unbounded; the statements below are at values where both agree.
  A Python exception is a value \<open>Inl e\<close> of a sum type.
\<close>

subsection \<open>Values and errors\<close>

type_synonym number = rat

text \<open>
  The two \<^verbatim>\<open>TypeError\<close>s of the constructor: the one it raises itself, with the message
  \<^verbatim>\<open>"Wrong number of {}s, expected {}".format(param_name, num_center_frequencies)\<close>
  (kept as its two arguments), and the one of \<^verbatim>\<open>list.sort\<close> when a key is
  \<^verbatim>\<open>None\<close> (\<^verbatim>\<open>'<' not supported between instances of ...\<close>).
\<close>

datatype type_error = WrongNumber string nat | NotComparable

datatype error =
    KeyError string
  | ValueError
  | TypeError type_error
  | AttributeError string
  | IndexError
  | PreconditionError
  | DeviceError string

definition raise :: "error \<Rightarrow> error + 'a" where
  "raise e = Inl e"

text \<open>\<^verbatim>\<open>d[key]\<close> on a dict: a missing key raises \<^verbatim>\<open>KeyError\<close>.\<close>

definition getitem :: "(string \<rightharpoonup> 'v) \<Rightarrow> string \<Rightarrow> error + 'v" where
  "getitem d key = (case d key of None \<Rightarrow> Inl (KeyError key) | Some v \<Rightarrow> Inr v)"

subsection \<open>The constructor\<close>

text \<open>
  One element of \<^verbatim>\<open>zip_longest(fcs, gains, sample_rates, durations_ms)\<close>: a 4-tuple
  whose components are \<^verbatim>\<open>None\<close> where a sequence has run out.
\<close>

type_synonym zipped_params = "number option \<times> number option \<times> number option \<times> number option"

text \<open>The dict \<^verbatim>\<open>dict(zip(parameter_names, params))\<close>, as its items in order.\<close>

type_synonym step_dict = "(string \<times> number option) list"

definition parameter_names :: "string list" where
  "parameter_names = [''center_frequency'', ''gain'', ''sample_rate'', ''duration_ms'']"

definition sortFrequency :: "zipped_params \<Rightarrow> number option" where
  "sortFrequency zipped_params = fst zipped_params"

definition tuple_items :: "zipped_params \<Rightarrow> number option list" where
  "tuple_items params = (case params of (a, b, c, d) \<Rightarrow> [a, b, c, d])"

definition nth_opt :: "'a list \<Rightarrow> nat \<Rightarrow> 'a option" where
  "nth_opt xs i = (if i < length xs then Some (xs ! i) else None)"

text \<open>
  \<^verbatim>\<open>itertools.zip_longest\<close> of four sequences with the default fill value
  \<^verbatim>\<open>None\<close>: as many tuples as the longest sequence has elements.
\<close>

definition zip_longest ::
  "number list \<Rightarrow> number list \<Rightarrow> number list \<Rightarrow> number list \<Rightarrow> zipped_params list" where
  "zip_longest fcs gains sample_rates durations_ms =
     map (\<lambda>i. (nth_opt fcs i, nth_opt gains i, nth_opt sample_rates i, nth_opt durations_ms i))
       [0..<max (length fcs) (max (length gains) (max (length sample_rates) (length durations_ms)))]"

text \<open>
  \<^verbatim>\<open>sorted_params.sort(key=sortFrequency)\<close>. Python's sort is stable, and with two or
  more elements every key is compared with another one at least once; comparing
  \<^verbatim>\<open>None\<close> with a number (or with \<^verbatim>\<open>None\<close>) raises \<^verbatim>\<open>TypeError\<close>. A list of at
  most one element is sorted without any comparison. Where the sort succeeds every key
  is a number, and \<open>sort_key\<close> (a stable insertion sort) orders them.
\<close>

definition list_sort :: "zipped_params list \<Rightarrow> error + zipped_params list" where
  "list_sort rows =
     (if 2 \<le> length rows \<and> None \<in> set (map sortFrequency rows)
      then Inl (TypeError NotComparable)
      else Inr (sort_key sortFrequency rows))"

text \<open>\<^verbatim>\<open>params.index(x)\<close>: the first position of \<open>x\<close>, \<^verbatim>\<open>ValueError\<close> when absent.\<close>

fun index :: "'a list \<Rightarrow> 'a \<Rightarrow> error + nat" where
  "index [] x = Inl ValueError"
| "index (y # ys) x =
     (if y = x then Inr 0
      else (case index ys x of Inl e \<Rightarrow> Inl e | Inr i \<Rightarrow> Inr (Suc i)))"

text \<open>
  The loop of lines 86 to 92, with \<open>acc\<close> the list
  \<^verbatim>\<open>self.sorted_measurement_parameters\<close>. The \<^verbatim>\<open>append\<close> is indented under the
  \<^verbatim>\<open>if\<close>, after the \<^verbatim>\<open>raise\<close>: it is the continuation of the \<^verbatim>\<open>raise\<close>
  statement, and a tuple without \<^verbatim>\<open>None\<close> goes to the next iteration with the
  list as it was.
\<close>

fun validate_steps :: "nat \<Rightarrow> zipped_params list \<Rightarrow> step_dict list \<Rightarrow> error + step_dict list" where
  "validate_steps num_center_frequencies [] acc = Inr acc"
| "validate_steps num_center_frequencies (params # rest) acc =
     (if None \<in> set (tuple_items params) then
        (case index (tuple_items params) None of
           Inl e \<Rightarrow> Inl e
         | Inr i \<Rightarrow>
            (case raise (TypeError (WrongNumber (parameter_names ! i) num_center_frequencies)) of
               Inl e \<Rightarrow> Inl e
             | Inr () \<Rightarrow>
                 validate_steps num_center_frequencies rest
                   (acc @ [zip parameter_names (tuple_items params)])))
      else validate_steps num_center_frequencies rest acc)"

text \<open>
  What the parent class provides to an instance. The class
  \<^verbatim>\<open>SingleFrequencyTimeDomainIqAcquisition\<close> is not part of the sources at hand, so the
  attributes that \<^verbatim>\<open>description\<close> reads and that this class never assigns are
  parameters: \<open>None\<close> when the parent does not define the attribute.
\<close>

record measurement_params =
  center_frequency :: number
  gain :: number
  sample_rate :: number
  duration_ms :: number

record parent_attrs =
  name :: "string option"
  measurement_params_list :: "measurement_params list option"

record 'r action =
  parameters :: "string \<rightharpoonup> number list"
  sorted_measurement_parameters :: "step_dict list"
  radio :: 'r
  num_center_frequencies :: nat
  inherited :: parent_attrs

text \<open>
  \<^verbatim>\<open>__init__(self, parameters, radio)\<close>; \<open>base\<close> is the state of the instance after
  \<^verbatim>\<open>super().__init__()\<close>.
\<close>

definition init :: "parent_attrs \<Rightarrow> (string \<rightharpoonup> number list) \<Rightarrow> 'r \<Rightarrow> error + 'r action" where
  "init base params_dict radio_iface =
     (case getitem params_dict ''fcs'' of Inl e \<Rightarrow> Inl e | Inr fcs \<Rightarrow>
     (case getitem params_dict ''gains'' of Inl e \<Rightarrow> Inl e | Inr gains \<Rightarrow>
     (case getitem params_dict ''sample_rates'' of Inl e \<Rightarrow> Inl e | Inr sample_rates \<Rightarrow>
     (case getitem params_dict ''durations_ms'' of Inl e \<Rightarrow> Inl e | Inr durations_ms \<Rightarrow>
     (case list_sort (zip_longest fcs gains sample_rates durations_ms) of
        Inl e \<Rightarrow> Inl e
      | Inr sorted_params \<Rightarrow>
         (case validate_steps (length fcs) sorted_params [] of
            Inl e \<Rightarrow> Inl e
          | Inr plan \<Rightarrow>
              Inr \<lparr> parameters = params_dict,
                    sorted_measurement_parameters = plan,
                    radio = radio_iface,
                    num_center_frequencies = length fcs,
                    inherited = base \<rparr>))))))"

subsection \<open>The entry point\<close>

text \<open>
  The scheduler calls \<^verbatim>\<open>__call__(self, schedule_entry_json, task_id,
  sensor_definition)\<close>. It returns nothing; what it does is call its collaborators:
  the clock (\<^verbatim>\<open>utils.get_datetime_str_now\<close>), the methods inherited from the parent
  class, \<^verbatim>\<open>SigMFBuilder\<close> and the signal \<^verbatim>\<open>measurement_action_completed\<close>. None
  of them is part of the sources at hand. The world below keeps the clock and the calls
  made so far, oldest first; an exception leaves the world as it is at the
  \<^verbatim>\<open>raise\<close>.
\<close>

record 's measurement_result =
  data :: "'s list"

record ('s, 'm) notification =
  sender :: string
  task_id :: nat
  sent_data :: "'s list"
  metadata :: 'm

datatype ('s, 'm) event =
    AcquireData step_dict
  | GetSigmfGlobal
  | GetSigmfGlobalMeasurement nat
  | GetSigmfCapture
  | GetSigmfAnnotation
  | Send "('s, 'm) notification"

record ('s, 'm) world =
  clock :: nat
  events :: "('s, 'm) event list"

text \<open>
  The collaborators of the entry point, as parameters: the outcome of
  \<^verbatim>\<open>self.test_required_components()\<close>, \<^verbatim>\<open>super().acquire_data\<close> (it returns a
  measurement result or raises), the fresh \<^verbatim>\<open>SigMFBuilder()\<close> and the four methods
  that fill it. \<open>'m\<close> is the builder's metadata, \<open>'j\<close> the schedule entry and
  \<open>'k\<close> the sensor definition.
\<close>

record ('s, 'm, 'j, 'k) parent_methods =
  test_required_components :: "error + unit"
  acquire_data :: "step_dict \<Rightarrow> error + 's measurement_result"
  SigMFBuilder :: 'm
  get_sigmf_global ::
    "'m \<Rightarrow> 'j \<Rightarrow> 'k \<Rightarrow> 's measurement_result \<Rightarrow> nat \<Rightarrow> nat \<Rightarrow> nat \<Rightarrow> 'm"
  get_sigmf_global_measurement :: "'m \<Rightarrow> nat \<Rightarrow> nat \<Rightarrow> 's measurement_result \<Rightarrow> nat \<Rightarrow> 'm"
  get_sigmf_capture :: "'m \<Rightarrow> 's measurement_result \<Rightarrow> 'm"
  get_sigmf_annotation :: "'m \<Rightarrow> 's measurement_result \<Rightarrow> 'm"

text \<open>Reading the clock: the time is the number of earlier readings.\<close>

definition get_datetime_str_now :: "('s, 'm) world \<Rightarrow> nat \<times> ('s, 'm) world" where
  "get_datetime_str_now w = (clock w, w\<lparr>clock := Suc (clock w)\<rparr>)"

definition log_event :: "('s, 'm) event \<Rightarrow> ('s, 'm) world \<Rightarrow> ('s, 'm) world" where
  "log_event e w = w\<lparr>events := events w @ [e]\<rparr>"

definition class_name :: string where
  "class_name = ''SteppedFrequencyTimeDomainIqAcquisition''"

text \<open>The body of the loop of \<^verbatim>\<open>__call__\<close> (lines 104 to 128).\<close>

definition measure_step ::
  "('s, 'm, 'j, 'k) parent_methods \<Rightarrow> 'j \<Rightarrow> nat \<Rightarrow> 'k \<Rightarrow> nat \<Rightarrow> step_dict \<Rightarrow>
   ('s, 'm) world \<Rightarrow> (error + unit) \<times> ('s, 'm) world" where
  "measure_step P schedule_entry_json tid sensor_definition recording_id measurement_params w0 =
     (let (start_time, w1) = get_datetime_str_now w0;
          w2 = log_event (AcquireData measurement_params) w1
      in case acquire_data P measurement_params of
           Inl e \<Rightarrow> (Inl e, w2)
         | Inr measurement_result \<Rightarrow>
            (let (end_time, w3) = get_datetime_str_now w2;
                 received_samples = length (data measurement_result);
                 b0 = SigMFBuilder P;
                 b1 = get_sigmf_global P b0 schedule_entry_json sensor_definition
                        measurement_result start_time end_time tid;
                 w4 = log_event GetSigmfGlobal w3;
                 b2 = get_sigmf_global_measurement P b1 start_time end_time
                        measurement_result recording_id;
                 w5 = log_event (GetSigmfGlobalMeasurement recording_id) w4;
                 b3 = get_sigmf_capture P b2 measurement_result;
                 w6 = log_event GetSigmfCapture w5;
                 b4 = get_sigmf_annotation P b3 measurement_result;
                 w7 = log_event GetSigmfAnnotation w6;
                 w8 = log_event (Send \<lparr> sender = class_name, task_id = tid,
                        sent_data = data measurement_result, metadata = b4 \<rparr>) w7
             in (Inr (), w8)))"

text \<open>
  The loop over \<^verbatim>\<open>enumerate(self.sorted_measurement_parameters, start=1)\<close>: an
  exception in one step ends the loop.
\<close>

fun sweep ::
  "('s, 'm, 'j, 'k) parent_methods \<Rightarrow> 'j \<Rightarrow> nat \<Rightarrow> 'k \<Rightarrow> (nat \<times> step_dict) list \<Rightarrow>
   ('s, 'm) world \<Rightarrow> (error + unit) \<times> ('s, 'm) world" where
  "sweep P schedule_entry_json tid sensor_definition [] w = (Inr (), w)"
| "sweep P schedule_entry_json tid sensor_definition ((recording_id, measurement_params) # rest) w =
     (case measure_step P schedule_entry_json tid sensor_definition recording_id
             measurement_params w of
        (Inl e, w') \<Rightarrow> (Inl e, w')
      | (Inr u, w') \<Rightarrow> sweep P schedule_entry_json tid sensor_definition rest w')"

definition call ::
  "('s, 'm, 'j, 'k) parent_methods \<Rightarrow> 'r action \<Rightarrow> 'j \<Rightarrow> nat \<Rightarrow> 'k \<Rightarrow>
   ('s, 'm) world \<Rightarrow> (error + unit) \<times> ('s, 'm) world" where
  "call P self schedule_entry_json tid sensor_definition w =
     (case test_required_components P of
        Inl e \<Rightarrow> (Inl e, w)
      | Inr u \<Rightarrow>
          sweep P schedule_entry_json tid sensor_definition
            (enumerate 1 (sorted_measurement_parameters self)) w)"

text \<open>Readings of the calls made: what was acquired, numbered, and sent, in order.\<close>

fun acquired :: "('s, 'm) event list \<Rightarrow> step_dict list" where
  "acquired [] = []"
| "acquired (AcquireData p # es) = p # acquired es"
| "acquired (e # es) = acquired es"

fun recording_ids :: "('s, 'm) event list \<Rightarrow> nat list" where
  "recording_ids [] = []"
| "recording_ids (GetSigmfGlobalMeasurement i # es) = i # recording_ids es"
| "recording_ids (e # es) = recording_ids es"

fun sent :: "('s, 'm) event list \<Rightarrow> ('s, 'm) notification list" where
  "sent [] = []"
| "sent (Send n # es) = n # sent es"
| "sent (e # es) = sent es"

datatype phase = Acquiring | Assembling | Publishing

fun phase_of :: "('s, 'm) event \<Rightarrow> phase" where
  "phase_of (AcquireData p) = Acquiring"
| "phase_of (Send n) = Publishing"
| "phase_of e = Assembling"

text \<open>The calls of one completed step, as phases.\<close>

definition step_phases :: "phase list" where
  "step_phases = [Acquiring, Assembling, Assembling, Assembling, Assembling, Publishing]"

subsection \<open>The collaborators, from the specification\<close>

text \<open>
  Modelled from the spec: \<^verbatim>\<open>test_required_components\<close>, a method of the parent class,
  which is not part of the sources at hand. The required external component (the
  acquisition device) must report ready; if not, the entry point fails with a
  \<^verbatim>\<open>PreconditionError\<close> before any step executes.
\<close>

definition test_required_components_spec :: "bool \<Rightarrow> error + unit" where
  "test_required_components_spec device_ready =
     (if device_ready then Inr () else Inl PreconditionError)"

text \<open>
  Modelled from the spec: the metadata builder and the four \<^verbatim>\<open>get_sigmf_*\<close> methods
  of the parent class, which are not part of the sources at hand. Per step the metadata
  gets a global record, a measurement record (recording identifier, capture start and
  end, sample count = length of the data), a capture record, and the annotation records
  (sensor, calibration) whose declared sample count is the number of samples of the
  step's data. The annotation types are named as the test of the repository reads them.
  The measurement result here carries only the data, so the capture record stands
  without the frequency, gain and sample rate that were used.
\<close>

datatype metadata_record =
    GlobalRecord nat nat nat
  | MeasurementRecord nat nat nat nat
  | CaptureRecord
  | Annotation string nat

text \<open>
  Modelled from the spec: \<^verbatim>\<open>get_sigmf_global\<close> of the absent parent class adds the
  global record (task identifier, start and end time).
\<close>

definition get_sigmf_global_spec ::
  "metadata_record list \<Rightarrow> 'j \<Rightarrow> 'k \<Rightarrow> 's measurement_result \<Rightarrow> nat \<Rightarrow> nat \<Rightarrow> nat \<Rightarrow>
   metadata_record list" where
  "get_sigmf_global_spec b schedule_entry_json sensor_definition measurement_result start_time
       end_time tid =
     b @ [GlobalRecord tid start_time end_time]"

text \<open>
  Modelled from the spec: \<^verbatim>\<open>get_sigmf_global_measurement\<close> of the absent parent class
  adds the measurement record of the step: recording identifier, capture start and end,
  sample count = length of the data.
\<close>

definition get_sigmf_global_measurement_spec ::
  "metadata_record list \<Rightarrow> nat \<Rightarrow> nat \<Rightarrow> 's measurement_result \<Rightarrow> nat \<Rightarrow> metadata_record list" where
  "get_sigmf_global_measurement_spec b start_time end_time measurement_result recording_id =
     b @ [MeasurementRecord recording_id start_time end_time (length (data measurement_result))]"

text \<open>
  Modelled from the spec: \<^verbatim>\<open>get_sigmf_capture\<close> of the absent parent class adds the
  capture record of the step.
\<close>

definition get_sigmf_capture_spec ::
  "metadata_record list \<Rightarrow> 's measurement_result \<Rightarrow> metadata_record list" where
  "get_sigmf_capture_spec b measurement_result = b @ [CaptureRecord]"

text \<open>
  Modelled from the spec: \<^verbatim>\<open>get_sigmf_annotation\<close> of the absent parent class adds
  the sensor and the calibration annotation, each with a declared sample count equal to
  the number of samples in the step's data.
\<close>

definition get_sigmf_annotation_spec ::
  "metadata_record list \<Rightarrow> 's measurement_result \<Rightarrow> metadata_record list" where
  "get_sigmf_annotation_spec b measurement_result =
     b @ [Annotation ''SensorAnnotation'' (length (data measurement_result)),
          Annotation ''CalibrationAnnotation'' (length (data measurement_result))]"

text \<open>
  Modelled from the spec: the parent class as the specification describes it, over a
  device that is ready or not and an acquisition function; a fresh builder holds no
  record.
\<close>

definition spec_parent ::
  "bool \<Rightarrow> (step_dict \<Rightarrow> error + 's measurement_result) \<Rightarrow>
   ('s, metadata_record list, 'j, 'k) parent_methods" where
  "spec_parent device_ready acquire =
     \<lparr> test_required_components = test_required_components_spec device_ready,
       acquire_data = acquire,
       SigMFBuilder = [],
       get_sigmf_global = get_sigmf_global_spec,
       get_sigmf_global_measurement = get_sigmf_global_measurement_spec,
       get_sigmf_capture = get_sigmf_capture_spec,
       get_sigmf_annotation = get_sigmf_annotation_spec \<rparr>"

text \<open>
  The check of \<^verbatim>\<open>test_detector\<close> (lines 41 to 46 of
  \<^verbatim>\<open>tests/test_acquire_single_freq_fft.py\<close>) on one notification: every annotation of
  type \<^verbatim>\<open>SensorAnnotation\<close> or \<^verbatim>\<open>CalibrationAnnotation\<close> has the sample count
  \<^verbatim>\<open>len(_data.flatten())\<close>.
\<close>

fun annotation_ok :: "nat \<Rightarrow> metadata_record \<Rightarrow> bool" where
  "annotation_ok n (Annotation annotation_type sample_count) =
     (if annotation_type \<in> set [''SensorAnnotation'', ''CalibrationAnnotation'']
      then sample_count = n else True)"
| "annotation_ok n other = True"

definition sample_counts_ok :: "('s, metadata_record list) notification \<Rightarrow> bool" where
  "sample_counts_ok n = list_all (annotation_ok (length (sent_data n))) (metadata n)"

subsection \<open>The description\<close>

text \<open>\<^verbatim>\<open>int(x)\<close> of a float: truncation towards zero.\<close>

definition py_int :: "number \<Rightarrow> int" where
  "py_int x = (if x < 0 then \<lceil>x\<rceil> else \<lfloor>x\<rfloor>)"

text \<open>\<^verbatim>\<open>sep.join(xs)\<close>.\<close>

fun join :: "string \<Rightarrow> string list \<Rightarrow> string" where
  "join sep [] = []"
| "join sep [x] = x"
| "join sep (x # y # ys) = x @ sep @ join sep (y # ys)"

text \<open>
  The loop of lines 145 to 156 on the pair
  \<^verbatim>\<open>(acquisition_plan, total_samples)\<close>. \<open>format_step\<close> is
  \<^verbatim>\<open>acq_plan_template.format\<close> on the four values of a step (the rendering of floats
  is a parameter); the loop evaluates it and drops the string.
\<close>

fun plan_loop ::
  "(number \<Rightarrow> number \<Rightarrow> number \<Rightarrow> number \<Rightarrow> string) \<Rightarrow> measurement_params list \<Rightarrow>
   string \<times> int \<Rightarrow> string \<times> int" where
  "plan_loop format_step [] (acquisition_plan, total_samples) = (acquisition_plan, total_samples)"
| "plan_loop format_step (mp # rest) (acquisition_plan, total_samples) =
     (let line = format_step (center_frequency mp / 1000000) (gain mp)
                   (sample_rate mp / 1000000) (duration_ms mp)
      in plan_loop format_step rest
           (acquisition_plan,
            total_samples + py_int (duration_ms mp / 1000000 * sample_rate mp)))"

text \<open>
  The dict \<^verbatim>\<open>defs\<close> of \<^verbatim>\<open>description\<close>; the property returns
  \<^verbatim>\<open>__doc__.format(**defs)\<close>, the module's docstring with these values in place of
  \<^verbatim>\<open>{name}\<close>, \<^verbatim>\<open>{acquisition_plan}\<close>, \<^verbatim>\<open>{total_samples}\<close> and the others.
\<close>

record description_defs =
  defs_name :: string
  defs_num_center_frequencies :: nat
  defs_center_frequencies :: string
  defs_acquisition_plan :: string
  defs_min_duration_ms :: number
  defs_total_samples :: int
  defs_filesize_mb :: number

text \<open>
  \<^verbatim>\<open>description\<close>, up to the dict \<^verbatim>\<open>defs\<close>. \<^verbatim>\<open>self.measurement_params_list\<close>
  and \<^verbatim>\<open>self.name\<close> are attributes that this class does not assign: they are looked
  up among those of the parent class, and a missing one raises
  \<^verbatim>\<open>AttributeError\<close>. Index \<^verbatim>\<open>[0]\<close> of an empty list raises \<^verbatim>\<open>IndexError\<close>.
  \<open>format_mhz\<close> is \<^verbatim>\<open>"{:.2f} MHz".format\<close>.
\<close>

definition description ::
  "(number \<Rightarrow> number \<Rightarrow> number \<Rightarrow> number \<Rightarrow> string) \<Rightarrow> (number \<Rightarrow> string) \<Rightarrow>
   'r action \<Rightarrow> error + description_defs" where
  "description format_step format_mhz self =
     (case measurement_params_list (inherited self) of
        None \<Rightarrow> Inl (AttributeError ''measurement_params_list'')
      | Some mpl \<Rightarrow>
         (let (acquisition_plan, total_samples) = plan_loop format_step mpl ([], 0)
          in case mpl of
               [] \<Rightarrow> Inl IndexError
             | first # others \<Rightarrow>
                (let f_low = center_frequency first;
                     f_low_srate = sample_rate first;
                     f_low_edge = (f_low - f_low_srate / 2) / 1000000;
                     f_high = center_frequency (last mpl);
                     f_high_srate = sample_rate (last mpl);
                     f_high_edge = (f_high - f_high_srate / 2) / 1000000;
                     durations = map duration_ms mpl;
                     min_duration_ms = sum_list durations;
                     filesize_mb = of_int total_samples * 8 / 1000000
                 in case name (inherited self) of
                      None \<Rightarrow> Inl (AttributeError ''name'')
                    | Some nm \<Rightarrow>
                        Inr \<lparr> defs_name = nm,
                              defs_num_center_frequencies = num_center_frequencies self,
                              defs_center_frequencies =
                                join '', ''
                                  (map (\<lambda>param. format_mhz (center_frequency param / 1000000)) mpl),
                              defs_acquisition_plan = acquisition_plan,
                              defs_min_duration_ms = min_duration_ms,
                              defs_total_samples = total_samples,
                              defs_filesize_mb = filesize_mb \<rparr>)))"

subsection \<open>Example inputs\<close>

text \<open>
  A parent class that defines neither \<^verbatim>\<open>name\<close> nor
  \<^verbatim>\<open>measurement_params_list\<close>, and parameter dicts: one and two steps with four
  sequences of equal length, three center frequencies with two gains, two center
  frequencies with three values in every other sequence, no center frequency with one
  value in every other sequence.
\<close>

definition no_parent_attrs :: parent_attrs where
  "no_parent_attrs = \<lparr> name = None, measurement_params_list = None \<rparr>"

definition single_step_parameters :: "string \<rightharpoonup> number list" where
  "single_step_parameters =
     [''fcs'' \<mapsto> [700000000], ''gains'' \<mapsto> [40], ''sample_rates'' \<mapsto> [1000000],
      ''durations_ms'' \<mapsto> [100]]"

definition two_step_parameters :: "string \<rightharpoonup> number list" where
  "two_step_parameters =
     [''fcs'' \<mapsto> [2450000000, 2400000000], ''gains'' \<mapsto> [20, 10],
      ''sample_rates'' \<mapsto> [1000000, 1000000], ''durations_ms'' \<mapsto> [10, 10]]"

definition short_gains_parameters :: "string \<rightharpoonup> number list" where
  "short_gains_parameters =
     [''fcs'' \<mapsto> [3, 2, 1], ''gains'' \<mapsto> [10, 20], ''sample_rates'' \<mapsto> [1, 1, 1],
      ''durations_ms'' \<mapsto> [5, 5, 5]]"

definition short_fcs_parameters :: "string \<rightharpoonup> number list" where
  "short_fcs_parameters =
     [''fcs'' \<mapsto> [1, 2], ''gains'' \<mapsto> [10, 20, 30], ''sample_rates'' \<mapsto> [1, 1, 1],
      ''durations_ms'' \<mapsto> [5, 5, 5]]"

definition empty_fcs_parameters :: "string \<rightharpoonup> number list" where
  "empty_fcs_parameters =
     [''fcs'' \<mapsto> [], ''gains'' \<mapsto> [10], ''sample_rates'' \<mapsto> [1], ''durations_ms'' \<mapsto> [5]]"

text \<open>
  An instance whose attribute \<^verbatim>\<open>sorted_measurement_parameters\<close> holds the two steps
  of the two-step sweep in ascending frequency, a device that returns three samples at
  2400 MHz and two at 2450 MHz, a device that fails at 2450 MHz, and a world in which
  nothing has happened yet.
\<close>

definition step_2400 :: step_dict where
  "step_2400 = [(''center_frequency'', Some 2400000000), (''gain'', Some 10),
     (''sample_rate'', Some 1000000), (''duration_ms'', Some 10)]"

definition step_2450 :: step_dict where
  "step_2450 = [(''center_frequency'', Some 2450000000), (''gain'', Some 20),
     (''sample_rate'', Some 1000000), (''duration_ms'', Some 10)]"

definition two_step_action :: "unit action" where
  "two_step_action =
     \<lparr> parameters = two_step_parameters,
       sorted_measurement_parameters = [step_2400, step_2450],
       radio = (), num_center_frequencies = 2, inherited = no_parent_attrs \<rparr>"

definition example_acquire :: "step_dict \<Rightarrow> error + complex measurement_result" where
  "example_acquire p =
     (if p = step_2400 then Inr \<lparr> data = [1, 2, 3] \<rparr>
      else if p = step_2450 then Inr \<lparr> data = [4, 5] \<rparr>
      else Inl (DeviceError ''no signal''))"

definition failing_acquire :: "step_dict \<Rightarrow> error + complex measurement_result" where
  "failing_acquire p =
     (if p = step_2400 then Inr \<lparr> data = [1, 2, 3] \<rparr>
      else Inl (DeviceError ''no signal''))"

definition initial_world :: "(complex, metadata_record list) world" where
  "initial_world = \<lparr> clock = 0, events = [] \<rparr>"

text \<open>
  An instance whose parent class provides \<^verbatim>\<open>name\<close> and a
  \<^verbatim>\<open>measurement_params_list\<close> of one step: 700 MHz, gain 40 dB, 1 MHz sample rate,
  100 ms.
\<close>

definition one_step_list :: "measurement_params list" where
  "one_step_list =
     [\<lparr> center_frequency = 700000000, gain = 40, sample_rate = 1000000, duration_ms = 100 \<rparr>]"

definition described_action :: "unit action" where
  "described_action =
     \<lparr> parameters = single_step_parameters, sorted_measurement_parameters = [],
       radio = (), num_center_frequencies = 1,
       inherited = \<lparr> name = Some ''acquire_iq'', measurement_params_list = Some one_step_list \<rparr> \<rparr>"

section \<open>Properties of the constructor\<close>

subsection \<open>The validation loop\<close>

lemma validate_steps_acc: "validate_steps n rows acc = Inr acc' \<Longrightarrow> acc' = acc"
  by (induction rows arbitrary: acc) (auto simp: raise_def split: if_splits sum.splits)

lemma validate_steps_clean:
  "list_all (\<lambda>r. None \<notin> set (tuple_items r)) rows \<Longrightarrow> validate_steps n rows acc = Inr acc"
  by (induction rows arbitrary: acc) auto

subsection \<open>Rows of \<open>zip_longest\<close> and the sort\<close>

lemma zip_longest_row:
  "r \<in> set (zip_longest fcs gains srs ds) \<longleftrightarrow>
   (\<exists>i < max (length fcs) (max (length gains) (max (length srs) (length ds))).
      r = (nth_opt fcs i, nth_opt gains i, nth_opt srs i, nth_opt ds i))"
  by (auto simp: zip_longest_def)

lemma zip_longest_equal_clean:
  assumes "length gains = length fcs" "length srs = length fcs" "length ds = length fcs"
  shows "list_all (\<lambda>r. None \<notin> set (tuple_items r)) (zip_longest fcs gains srs ds)"
  using assms by (auto simp: list_all_iff zip_longest_row tuple_items_def nth_opt_def)

lemma zip_longest_fcs_longest:
  assumes "length gains \<le> length fcs" "length srs \<le> length fcs" "length ds \<le> length fcs"
  shows "zip_longest fcs gains srs ds =
     map (\<lambda>i. (Some (fcs ! i), nth_opt gains i, nth_opt srs i, nth_opt ds i)) [0..<length fcs]"
proof -
  from assms have "max (length fcs) (max (length gains) (max (length srs) (length ds))) = length fcs"
    by simp
  then show ?thesis
    by (simp add: zip_longest_def nth_opt_def)
qed

lemma list_sort_fcs_longest:
  assumes "length gains \<le> length fcs" "length srs \<le> length fcs" "length ds \<le> length fcs"
  shows "list_sort (zip_longest fcs gains srs ds) =
    Inr (sort_key sortFrequency (zip_longest fcs gains srs ds))"
proof -
  have "None \<notin> set (map sortFrequency (zip_longest fcs gains srs ds))"
    unfolding zip_longest_fcs_longest[OF assms] by (auto simp: sortFrequency_def)
  then show ?thesis
    by (simp add: list_sort_def)
qed

subsection \<open>Results of the constructor\<close>

lemma init_equal_lengths:
  assumes "params_dict ''fcs'' = Some fcs" "params_dict ''gains'' = Some gains"
    "params_dict ''sample_rates'' = Some sample_rates"
    "params_dict ''durations_ms'' = Some durations_ms"
    and eq: "length gains = length fcs" "length sample_rates = length fcs"
      "length durations_ms = length fcs"
  shows "init base params_dict r =
     Inr \<lparr> parameters = params_dict, sorted_measurement_parameters = [], radio = r,
           num_center_frequencies = length fcs, inherited = base \<rparr>"
proof -
  let ?rows = "zip_longest fcs gains sample_rates durations_ms"
  from eq have sorted: "list_sort ?rows = Inr (sort_key sortFrequency ?rows)"
    by (intro list_sort_fcs_longest) simp_all
  have "list_all (\<lambda>r. None \<notin> set (tuple_items r)) ?rows"
    using eq by (rule zip_longest_equal_clean)
  then have "list_all (\<lambda>r. None \<notin> set (tuple_items r)) (sort_key sortFrequency ?rows)"
    by (simp add: list_all_iff)
  then have "validate_steps (length fcs) (sort_key sortFrequency ?rows) [] = Inr []"
    by (rule validate_steps_clean)
  with sorted assms(1-4) show ?thesis
    by (simp add: init_def getitem_def)
qed

lemma init_plan_empty:
  assumes "init base params_dict r = Inr obj"
  shows "sorted_measurement_parameters obj = []"
proof -
  from assms obtain n rows plan where v: "validate_steps n rows [] = Inr plan"
    and obj: "sorted_measurement_parameters obj = plan"
    by (auto simp: init_def split: sum.splits)
  from v have "plan = []" by (rule validate_steps_acc)
  with obj show ?thesis by simp
qed

section \<open>Properties of the entry point\<close>

subsection \<open>One step\<close>

lemma measure_step_ok:
  assumes "acquire_data P p = Inr r"
  shows "measure_step P j t k i p w =
    (Inr (), w\<lparr>clock := Suc (Suc (clock w)),
      events := events w @
        [AcquireData p, GetSigmfGlobal, GetSigmfGlobalMeasurement i, GetSigmfCapture,
         GetSigmfAnnotation,
         Send \<lparr> sender = class_name, task_id = t, sent_data = data r,
           metadata = get_sigmf_annotation P
             (get_sigmf_capture P
               (get_sigmf_global_measurement P
                 (get_sigmf_global P (SigMFBuilder P) j k r (clock w) (Suc (clock w)) t)
                 (clock w) (Suc (clock w)) r i) r) r \<rparr>]\<rparr>)"
  using assms by (simp add: measure_step_def get_datetime_str_now_def log_event_def)

lemma measure_step_fail:
  assumes "acquire_data P p = Inl e"
  shows "measure_step P j t k i p w =
    (Inl e, w\<lparr>clock := Suc (clock w), events := events w @ [AcquireData p]\<rparr>)"
  using assms by (simp add: measure_step_def get_datetime_str_now_def log_event_def)

lemma acquired_append: "acquired (xs @ ys) = acquired xs @ acquired ys"
  by (induction xs rule: acquired.induct) simp_all

lemma recording_ids_append: "recording_ids (xs @ ys) = recording_ids xs @ recording_ids ys"
  by (induction xs rule: recording_ids.induct) simp_all

lemma sent_append: "sent (xs @ ys) = sent xs @ sent ys"
  by (induction xs rule: sent.induct) simp_all

subsection \<open>The loop\<close>

lemma sweep_completed:
  assumes "list_all (\<lambda>p. \<not> isl (acquire_data P p)) xs"
  shows "\<exists>w'. sweep P j t k (enumerate n xs @ rest) w = sweep P j t k rest w' \<and>
    clock w' = clock w + 2 * length xs \<and>
    acquired (events w') = acquired (events w) @ xs \<and>
    recording_ids (events w') = recording_ids (events w) @ [n..<n + length xs] \<and>
    map phase_of (events w') =
      map phase_of (events w) @ concat (replicate (length xs) step_phases) \<and>
    map sent_data (sent (events w')) =
      map sent_data (sent (events w)) @ map (\<lambda>p. data (projr (acquire_data P p))) xs"
  using assms
proof (induction xs arbitrary: n w)
  case Nil
  show ?case by (intro exI[of _ w]) simp
next
  case (Cons x xs)
  from Cons.prems obtain r where r: "acquire_data P x = Inr r"
    by (cases "acquire_data P x") auto
  from Cons.prems have rest_ok: "list_all (\<lambda>p. \<not> isl (acquire_data P p)) xs"
    by simp
  define w1 where "w1 = snd (measure_step P j t k n x w)"
  have step: "measure_step P j t k n x w = (Inr (), w1)"
    unfolding w1_def by (simp add: measure_step_ok[OF r])
  have w1_clock: "clock w1 = Suc (Suc (clock w))"
    unfolding w1_def by (simp add: measure_step_ok[OF r])
  have w1_events: "events w1 = events w @
        [AcquireData x, GetSigmfGlobal, GetSigmfGlobalMeasurement n, GetSigmfCapture,
         GetSigmfAnnotation,
         Send \<lparr> sender = class_name, task_id = t, sent_data = data r,
           metadata = get_sigmf_annotation P
             (get_sigmf_capture P
               (get_sigmf_global_measurement P
                 (get_sigmf_global P (SigMFBuilder P) j k r (clock w) (Suc (clock w)) t)
                 (clock w) (Suc (clock w)) r n) r) r \<rparr>]"
    unfolding w1_def by (simp add: measure_step_ok[OF r])
  from Cons.IH[OF rest_ok, of "Suc n" w1] obtain w' where
    run: "sweep P j t k (enumerate (Suc n) xs @ rest) w1 = sweep P j t k rest w'"
    and clk: "clock w' = clock w1 + 2 * length xs"
    and acq: "acquired (events w') = acquired (events w1) @ xs"
    and ids: "recording_ids (events w') = recording_ids (events w1) @ [Suc n..<Suc n + length xs]"
    and phs: "map phase_of (events w') =
      map phase_of (events w1) @ concat (replicate (length xs) step_phases)"
    and dat: "map sent_data (sent (events w')) =
      map sent_data (sent (events w1)) @ map (\<lambda>p. data (projr (acquire_data P p))) xs"
    by blast
  have 1: "sweep P j t k (enumerate n (x # xs) @ rest) w = sweep P j t k rest w'"
    using run step by simp
  have 2: "clock w' = clock w + 2 * length (x # xs)"
    using clk w1_clock by simp
  have 3: "acquired (events w') = acquired (events w) @ x # xs"
    using acq by (simp add: w1_events acquired_append)
  have upt: "[n..<n + length (x # xs)] = n # [Suc n..<Suc n + length xs]"
    by (subst upt_rec) simp
  have 4: "recording_ids (events w') = recording_ids (events w) @ [n..<n + length (x # xs)]"
    unfolding upt using ids by (simp add: w1_events recording_ids_append del: upt_Suc)
  have 5: "map phase_of (events w') =
      map phase_of (events w) @ concat (replicate (length (x # xs)) step_phases)"
    using phs by (simp add: w1_events step_phases_def)
  have 6: "map sent_data (sent (events w')) =
      map sent_data (sent (events w)) @ map (\<lambda>p. data (projr (acquire_data P p))) (x # xs)"
    using dat by (simp add: w1_events sent_append r)
  from 1 2 3 4 5 6 show ?case by blast
qed

lemma sweep_all_completed:
  assumes "list_all (\<lambda>p. \<not> isl (acquire_data P p)) xs"
  shows "\<exists>w'. sweep P j t k (enumerate n xs) w = (Inr (), w') \<and>
    acquired (events w') = acquired (events w) @ xs \<and>
    recording_ids (events w') = recording_ids (events w) @ [n..<n + length xs] \<and>
    map phase_of (events w') =
      map phase_of (events w) @ concat (replicate (length xs) step_phases) \<and>
    map sent_data (sent (events w')) =
      map sent_data (sent (events w)) @ map (\<lambda>p. data (projr (acquire_data P p))) xs"
  using sweep_completed[OF assms, of j t k n "[]" w] by auto

lemma sweep_stops_at_failure:
  assumes "list_all (\<lambda>p. \<not> isl (acquire_data P p)) xs" and "acquire_data P p = Inl e"
  shows "\<exists>w'. sweep P j t k (enumerate n (xs @ p # qs)) w = (Inl e, w') \<and>
    map phase_of (events w') =
      map phase_of (events w) @ concat (replicate (length xs) step_phases) @ [Acquiring] \<and>
    map sent_data (sent (events w')) =
      map sent_data (sent (events w)) @ map (\<lambda>p. data (projr (acquire_data P p))) xs"
proof -
  have split: "enumerate n (xs @ p # qs) =
      enumerate n xs @ (n + length xs, p) # enumerate (Suc (n + length xs)) qs"
    by (simp add: enumerate_append_eq)
  from sweep_completed[OF assms(1), of j t k n
      "(n + length xs, p) # enumerate (Suc (n + length xs)) qs" w]
  obtain w1 where run: "sweep P j t k (enumerate n (xs @ p # qs)) w =
      sweep P j t k ((n + length xs, p) # enumerate (Suc (n + length xs)) qs) w1"
    and phs: "map phase_of (events w1) =
      map phase_of (events w) @ concat (replicate (length xs) step_phases)"
    and dat: "map sent_data (sent (events w1)) =
      map sent_data (sent (events w)) @ map (\<lambda>p. data (projr (acquire_data P p))) xs"
    unfolding split by blast
  let ?w' = "w1\<lparr>clock := Suc (clock w1), events := events w1 @ [AcquireData p]\<rparr>"
  have "sweep P j t k (enumerate n (xs @ p # qs)) w = (Inl e, ?w')"
    unfolding run by (simp add: measure_step_fail[OF assms(2)])
  moreover have "map phase_of (events ?w') =
      map phase_of (events w) @ concat (replicate (length xs) step_phases) @ [Acquiring]"
    using phs by simp
  moreover have "map sent_data (sent (events ?w')) =
      map sent_data (sent (events w)) @ map (\<lambda>p. data (projr (acquire_data P p))) xs"
    using dat by (simp add: sent_append)
  ultimately show ?thesis by blast
qed

lemma measure_step_spec_counts:
  assumes "list_all sample_counts_ok (sent (events w))"
  shows "list_all sample_counts_ok
    (sent (events (snd (measure_step (spec_parent device_ready acquire) j t k i p w))))"
proof (cases "acquire p")
  case (Inl e)
  then have f: "acquire_data (spec_parent device_ready acquire) p = Inl e"
    by (simp add: spec_parent_def)
  from assms show ?thesis
    by (simp add: measure_step_fail[OF f] sent_append)
next
  case (Inr r)
  then have f: "acquire_data (spec_parent device_ready acquire) p = Inr r"
    by (simp add: spec_parent_def)
  note m = measure_step_ok[OF f, of j t k i w]
  from assms show ?thesis
    unfolding m
    by (simp add: sent_append sample_counts_ok_def spec_parent_def
        get_sigmf_global_spec_def
        get_sigmf_global_measurement_spec_def get_sigmf_capture_spec_def
        get_sigmf_annotation_spec_def)
qed

lemma sweep_spec_counts:
  assumes "list_all sample_counts_ok (sent (events w))"
  shows "list_all sample_counts_ok
    (sent (events (snd (sweep (spec_parent device_ready acquire) j t k steps w))))"
  using assms
proof (induction steps arbitrary: w)
  case Nil
  then show ?case by simp
next
  case (Cons step steps)
  obtain i p where step: "step = (i, p)" by (cases step)
  obtain res w1 where m: "measure_step (spec_parent device_ready acquire) j t k i p w = (res, w1)"
    by (cases "measure_step (spec_parent device_ready acquire) j t k i p w")
  from measure_step_spec_counts[OF Cons.prems, of device_ready acquire j t k i p] m
  have w1: "list_all sample_counts_ok (sent (events w1))" by simp
  show ?case
  proof (cases res)
    case (Inl e)
    with m w1 step show ?thesis by simp
  next
    case (Inr u)
    with m step Cons.IH[OF w1] show ?thesis by simp
  qed
qed

section \<open>Properties of the description\<close>

lemma plan_loop_keeps_plan:
  "fst (plan_loop format_step mpl (acquisition_plan, total_samples)) = acquisition_plan"
  by (induction mpl arbitrary: total_samples) (simp_all add: Let_def)

lemma init_inherited: "init base params_dict r = Inr self \<Longrightarrow> inherited self = base"
  by (auto simp: init_def split: sum.splits)

section \<open>The claims\<close>

text \<open>
  C1. For four input sequences of common length \<open>N \<ge> 1\<close>, construction stores a plan
  \<^verbatim>\<open>sorted_measurement_parameters\<close> of exactly \<open>N\<close> step-parameter records, sorted by
  center frequency. The code does not: on the two-step sweep of the example (center
  frequencies 2450 MHz and 2400 MHz, gains 20 and 10, sample rate 1 MHz, 10 ms each)
  construction succeeds and the stored plan is empty, where the claim has the two steps
  in the order 2400 MHz, 2450 MHz.
\<close>

theorem build_plan_two_steps_stores_nothing:
  "init no_parent_attrs two_step_parameters () =
     Inr \<lparr> parameters = two_step_parameters, sorted_measurement_parameters = [],
           radio = (), num_center_frequencies = 2, inherited = no_parent_attrs \<rparr>"
  using init_equal_lengths [of two_step_parameters "[2450000000, 2400000000]" "[20, 10]"
      "[1000000, 1000000]" "[10, 10]" no_parent_attrs "()"]
  by (simp add: two_step_parameters_def)

text \<open>
  C2. The \<^verbatim>\<open>append\<close> of the validation loop stands after the \<^verbatim>\<open>raise\<close> and never
  runs: whatever the rows, a loop that returns has left the list as it found it; every
  construction that succeeds stores the empty plan; and four sequences of equal length
  do construct an instance, whose plan is empty.
\<close>

theorem append_after_raise_unreachable:
  "(validate_steps n rows acc = Inr acc' \<longrightarrow> acc' = acc) \<and>
   (init base params_dict r = Inr obj \<longrightarrow> sorted_measurement_parameters obj = []) \<and>
   (params_dict ''fcs'' = Some fcs \<and> params_dict ''gains'' = Some gains \<and>
    params_dict ''sample_rates'' = Some sample_rates \<and>
    params_dict ''durations_ms'' = Some durations_ms \<and>
    length gains = length fcs \<and> length sample_rates = length fcs \<and>
    length durations_ms = length fcs \<longrightarrow>
      init base params_dict r =
        Inr \<lparr> parameters = params_dict, sorted_measurement_parameters = [], radio = r,
              num_center_frequencies = length fcs, inherited = base \<rparr>)"
proof (intro conjI impI)
  assume "validate_steps n rows acc = Inr acc'"
  then show "acc' = acc" by (rule validate_steps_acc)
next
  assume "init base params_dict r = Inr obj"
  then show "sorted_measurement_parameters obj = []" by (rule init_plan_empty)
next
  assume "params_dict ''fcs'' = Some fcs \<and> params_dict ''gains'' = Some gains \<and>
    params_dict ''sample_rates'' = Some sample_rates \<and>
    params_dict ''durations_ms'' = Some durations_ms \<and>
    length gains = length fcs \<and> length sample_rates = length fcs \<and>
    length durations_ms = length fcs"
  then show "init base params_dict r =
        Inr \<lparr> parameters = params_dict, sorted_measurement_parameters = [], radio = r,
              num_center_frequencies = length fcs, inherited = base \<rparr>"
    by (intro init_equal_lengths [of params_dict fcs gains sample_rates durations_ms]) simp_all
qed

theorem append_after_raise_unreachable_witness:
  "validate_steps 1 [(Some 700000000, Some 40, Some 1000000, Some 100)] [] = Inr [] \<and>
   init no_parent_attrs single_step_parameters () =
     Inr \<lparr> parameters = single_step_parameters, sorted_measurement_parameters = [],
           radio = (), num_center_frequencies = 1, inherited = no_parent_attrs \<rparr>"
  using append_after_raise_unreachable [of 1 "[(Some 700000000, Some 40, Some 1000000, Some 100)]"
      "[]" "[]" no_parent_attrs single_step_parameters "()"
      "\<lparr> parameters = single_step_parameters, sorted_measurement_parameters = [],
           radio = (), num_center_frequencies = 1, inherited = no_parent_attrs \<rparr>"
      "[700000000]" "[40]" "[1000000]" "[100]"]
  by (simp add: single_step_parameters_def tuple_items_def)



text \<open>
  C4. When one of the four sequences differs in length from the others, construction is
  to fail with an error that names the first diverging field and states the expected
  count \<open>N\<close>, the length of \<^verbatim>\<open>fcs\<close>. The code does not where \<^verbatim>\<open>fcs\<close> is
  the short sequence of several tuples: with two center frequencies and three values in
  each other sequence the third tuple has the key \<^verbatim>\<open>None\<close>, and the sort of line 84
  raises its own \<^verbatim>\<open>TypeError\<close> before the validation loop runs, with no field and
  no count in it. The loop is written to name \<^verbatim>\<open>center_frequency\<close> too, and does
  where the sort has nothing to compare (no center frequency, one value in each other
  sequence); with three center frequencies and two gains it names \<^verbatim>\<open>gain\<close> and
  expects 3.
\<close>

theorem length_mismatch_short_fcs_sort_error:
  "init no_parent_attrs short_fcs_parameters () = Inl (TypeError NotComparable) \<and>
   init no_parent_attrs empty_fcs_parameters () =
     Inl (TypeError (WrongNumber ''center_frequency'' 0)) \<and>
   init no_parent_attrs short_gains_parameters () = Inl (TypeError (WrongNumber ''gain'' 3))"
proof (intro conjI)
  show "init no_parent_attrs short_fcs_parameters () = Inl (TypeError NotComparable)"
    by (simp add: init_def getitem_def short_fcs_parameters_def list_sort_def zip_longest_def
        nth_opt_def sortFrequency_def)
  show "init no_parent_attrs empty_fcs_parameters () =
      Inl (TypeError (WrongNumber ''center_frequency'' 0))"
    by (simp add: init_def getitem_def empty_fcs_parameters_def list_sort_def zip_longest_def
        nth_opt_def sortFrequency_def tuple_items_def raise_def parameter_names_def)
  show "init no_parent_attrs short_gains_parameters () = Inl (TypeError (WrongNumber ''gain'' 3))"
    by (simp add: init_def getitem_def short_gains_parameters_def list_sort_def zip_longest_def
        nth_opt_def sortFrequency_def tuple_items_def raise_def parameter_names_def)
qed

text \<open>
  C5. The claim has \<^verbatim>\<open>total_samples\<close> the sum of
  \<open>floor (duration_ms / 1000 * sample_rate)\<close>, 100000 for one step of 100 ms at a
  sample rate of 1000000. The loop of \<^verbatim>\<open>description\<close> divides by \<^verbatim>\<open>1e6\<close>: on that
  step it computes 100 (and a file size of 0.0008 MB).
\<close>

theorem total_samples_single_step:
  "description format_step format_mhz described_action =
     Inr \<lparr> defs_name = ''acquire_iq'', defs_num_center_frequencies = 1,
           defs_center_frequencies = format_mhz 700,
           defs_acquisition_plan = [],
           defs_min_duration_ms = 100,
           defs_total_samples = 100,
           defs_filesize_mb = 1 / 1250 \<rparr>"
  by (simp add: description_def described_action_def one_step_list_def py_int_def Let_def)

text \<open>
  C6. When the acquisition device does not report ready, the entry point fails with
  \<^verbatim>\<open>PreconditionError\<close> and the world is as before the call: no clock reading, no
  acquisition, no metadata, no notification.
\<close>

theorem not_ready_fails_before_any_step:
  assumes "test_required_components P = test_required_components_spec False"
  shows "call P self j t k w = (Inl PreconditionError, w)"
  using assms by (simp add: call_def test_required_components_spec_def)

theorem not_ready_fails_before_any_step_witness:
  "call (spec_parent False example_acquire) two_step_action () 7 () initial_world =
     (Inl PreconditionError, initial_world)"
  using not_ready_fails_before_any_step [of "spec_parent False example_acquire" two_step_action
      "()" 7 "()" initial_world]
  by (simp add: spec_parent_def)

text \<open>
  C7. Let the plan be \<open>done_steps @ rest\<close>, where every acquisition of
  \<open>done_steps\<close> returns and \<open>rest\<close> is empty or starts with a step whose acquisition
  raises. Then the calls of the entry point are, for each step of \<open>done_steps\<close> in
  turn, its acquisition, the four calls that assemble its metadata and at once its
  notification, all before the next acquisition; the notifications carry the data of
  the steps of \<open>done_steps\<close> in plan order, one each; and a failing acquisition ends the
  call with its error after the notifications of the completed steps.
\<close>

theorem notification_after_each_step:
  assumes "test_required_components P = Inr ()"
    and "sorted_measurement_parameters self = done_steps @ rest"
    and "list_all (\<lambda>p. \<not> isl (acquire_data P p)) done_steps"
    and "case rest of [] \<Rightarrow> True | p # qs \<Rightarrow> isl (acquire_data P p)"
  shows "fst (call P self j t k w) =
      (case rest of [] \<Rightarrow> Inr () | p # qs \<Rightarrow> Inl (projl (acquire_data P p))) \<and>
    map phase_of (events (snd (call P self j t k w))) =
      map phase_of (events w) @ concat (replicate (length done_steps) step_phases) @
      (case rest of [] \<Rightarrow> [] | p # qs \<Rightarrow> [Acquiring]) \<and>
    map sent_data (sent (events (snd (call P self j t k w)))) =
      map sent_data (sent (events w)) @
      map (\<lambda>p. data (projr (acquire_data P p))) done_steps"
proof (cases rest)
  case Nil
  from sweep_all_completed[OF assms(3), of j t k 1 w] obtain w' where
    run: "sweep P j t k (enumerate 1 done_steps) w = (Inr (), w')"
    and phs: "map phase_of (events w') =
      map phase_of (events w) @ concat (replicate (length done_steps) step_phases)"
    and dat: "map sent_data (sent (events w')) = map sent_data (sent (events w)) @
      map (\<lambda>p. data (projr (acquire_data P p))) done_steps"
    by blast
  from run assms(1,2) Nil have res: "call P self j t k w = (Inr (), w')"
    by (simp add: call_def)
  from phs dat Nil show ?thesis
    unfolding res by simp
next
  case (Cons p qs)
  with assms(4) obtain e where e: "acquire_data P p = Inl e"
    by (cases "acquire_data P p") auto
  from sweep_stops_at_failure[OF assms(3) e, of j t k 1 qs w] obtain w' where
    run: "sweep P j t k (enumerate 1 (done_steps @ p # qs)) w = (Inl e, w')"
    and phs: "map phase_of (events w') =
      map phase_of (events w) @ concat (replicate (length done_steps) step_phases) @ [Acquiring]"
    and dat: "map sent_data (sent (events w')) = map sent_data (sent (events w)) @
      map (\<lambda>p. data (projr (acquire_data P p))) done_steps"
    by blast
  from run assms(1,2) Cons have res: "call P self j t k w = (Inl e, w')"
    by (simp add: call_def)
  from phs dat Cons e show ?thesis
    unfolding res by simp
qed

theorem notification_after_each_step_witness:
  "fst (call (spec_parent True failing_acquire) two_step_action () 7 () initial_world) =
     Inl (DeviceError ''no signal'') \<and>
   map phase_of (events (snd (call (spec_parent True failing_acquire) two_step_action
     () 7 () initial_world))) =
     [Acquiring, Assembling, Assembling, Assembling, Assembling, Publishing, Acquiring] \<and>
   map sent_data (sent (events (snd (call (spec_parent True failing_acquire) two_step_action
     () 7 () initial_world)))) = [[1, 2, 3]]"
  using notification_after_each_step [of "spec_parent True failing_acquire" two_step_action
      "[step_2400]" "[step_2450]" "()" 7 "()" initial_world]
  by (simp add: spec_parent_def test_required_components_spec_def failing_acquire_def
      two_step_action_def initial_world_def step_2400_def step_2450_def step_phases_def)

text \<open>
  C8. With the metadata methods of the specification, every notification that the entry
  point has sent passes the check of the repository's test: each annotation of type
  \<^verbatim>\<open>SensorAnnotation\<close> or \<^verbatim>\<open>CalibrationAnnotation\<close> declares as sample count the
  length of the data sent with it. This holds whether the device is ready or not and
  whether the sweep completes or stops at a failing step.
\<close>

theorem annotation_sample_counts:
  assumes "list_all sample_counts_ok (sent (events w))"
  shows "list_all sample_counts_ok
    (sent (events (snd (call (spec_parent device_ready acquire) self j t k w))))"
proof (cases device_ready)
  case True
  with sweep_spec_counts[OF assms, of True acquire j t k
      "enumerate 1 (sorted_measurement_parameters self)"]
  show ?thesis
    by (simp add: call_def spec_parent_def test_required_components_spec_def)
next
  case False
  with assms show ?thesis
    by (simp add: call_def spec_parent_def test_required_components_spec_def)
qed

theorem annotation_sample_counts_witness:
  "sent (events (snd (call (spec_parent True example_acquire) two_step_action () 7 ()
     initial_world))) =
     [\<lparr> sender = class_name, task_id = 7, sent_data = [1, 2, 3],
        metadata = [GlobalRecord 7 0 1, MeasurementRecord 1 0 1 3, CaptureRecord,
          Annotation ''SensorAnnotation'' 3, Annotation ''CalibrationAnnotation'' 3] \<rparr>,
      \<lparr> sender = class_name, task_id = 7, sent_data = [4, 5],
        metadata = [GlobalRecord 7 2 3, MeasurementRecord 2 2 3 2, CaptureRecord,
          Annotation ''SensorAnnotation'' 2, Annotation ''CalibrationAnnotation'' 2] \<rparr>] \<and>
   list_all sample_counts_ok
     (sent (events (snd (call (spec_parent True example_acquire) two_step_action () 7 ()
        initial_world))))"
  using annotation_sample_counts [of initial_world True example_acquire two_step_action "()" 7 "()"]
  by (simp add: initial_world_def call_def spec_parent_def test_required_components_spec_def
      example_acquire_def two_step_action_def step_2400_def step_2450_def measure_step_def
      get_datetime_str_now_def log_event_def get_sigmf_global_spec_def
      get_sigmf_global_measurement_spec_def get_sigmf_capture_spec_def
      get_sigmf_annotation_spec_def)

text \<open>
  C9. The constructor stores the plan as \<^verbatim>\<open>sorted_measurement_parameters\<close> and
  assigns no \<^verbatim>\<open>measurement_params_list\<close>: on every instance it has built, over a
  parent class that does not define that attribute, \<^verbatim>\<open>description\<close> raises
  \<^verbatim>\<open>AttributeError\<close> at its first use, whatever the inputs.
\<close>

theorem description_raises_AttributeError:
  assumes "init base params_dict r = Inr self" and "measurement_params_list base = None"
  shows "description format_step format_mhz self = Inl (AttributeError ''measurement_params_list'')"
  using assms init_inherited[OF assms(1)] by (simp add: description_def)

theorem description_raises_AttributeError_witness:
  "init no_parent_attrs single_step_parameters () =
     Inr \<lparr> parameters = single_step_parameters, sorted_measurement_parameters = [],
           radio = (), num_center_frequencies = 1, inherited = no_parent_attrs \<rparr> \<and>
   measurement_params_list no_parent_attrs = None \<and>
   description (\<lambda>a b c d. []) (\<lambda>x. [])
     \<lparr> parameters = single_step_parameters, sorted_measurement_parameters = [],
       radio = (), num_center_frequencies = 1, inherited = no_parent_attrs \<rparr> =
   Inl (AttributeError ''measurement_params_list'')"
  using description_raises_AttributeError [of no_parent_attrs single_step_parameters "()"
      "\<lparr> parameters = single_step_parameters, sorted_measurement_parameters = [],
       radio = (), num_center_frequencies = 1, inherited = no_parent_attrs \<rparr>"
      "\<lambda>a b c d. []" "\<lambda>x. []"]
    init_equal_lengths [of single_step_parameters "[700000000]" "[40]" "[1000000]" "[100]"
      no_parent_attrs "()"]
  by (simp add: single_step_parameters_def no_parent_attrs_def)

text \<open>
  C10. The loop of \<^verbatim>\<open>description\<close> never changes \<^verbatim>\<open>acquisition_plan\<close>, whatever
  the formatted lines are, and whenever \<^verbatim>\<open>description\<close> gets as far as its dict
  \<^verbatim>\<open>defs\<close>, the \<^verbatim>\<open>acquisition_plan\<close> in it is the empty string.
\<close>

theorem acquisition_plan_always_empty:
  "fst (plan_loop format_step mpl (acquisition_plan, total_samples)) = acquisition_plan \<and>
   (description format_step format_mhz self = Inr defs \<longrightarrow> defs_acquisition_plan defs = [])"
proof (intro conjI impI)
  show "fst (plan_loop format_step mpl (acquisition_plan, total_samples)) = acquisition_plan"
    by (rule plan_loop_keeps_plan)
next
  assume d: "description format_step format_mhz self = Inr defs"
  then obtain mpl' where mpl': "measurement_params_list (inherited self) = Some mpl'"
    by (cases "measurement_params_list (inherited self)") (simp_all add: description_def)
  obtain plan total where loop: "plan_loop format_step mpl' ([], 0) = (plan, total)"
    by (cases "plan_loop format_step mpl' ([], 0)")
  from plan_loop_keeps_plan[of format_step mpl' "[]" 0] loop have "plan = []"
    by simp
  with d mpl' loop show "defs_acquisition_plan defs = []"
    by (auto simp: description_def Let_def split: list.splits option.splits)
qed

theorem acquisition_plan_always_empty_witness:
  "fst (plan_loop (\<lambda>a b c d. ''1. Tune'') one_step_list ([], 0)) = [] \<and>
   description (\<lambda>a b c d. ''1. Tune'') (\<lambda>x. ''700.00 MHz'') described_action =
     Inr \<lparr> defs_name = ''acquire_iq'', defs_num_center_frequencies = 1,
           defs_center_frequencies = ''700.00 MHz'',
           defs_acquisition_plan = [],
           defs_min_duration_ms = 100,
           defs_total_samples = 100,
           defs_filesize_mb = 1 / 1250 \<rparr>"
  using acquisition_plan_always_empty [of "\<lambda>a b c d. ''1. Tune''" one_step_list "[]" 0
      "\<lambda>x. ''700.00 MHz''" described_action
      "\<lparr> defs_name = ''acquire_iq'', defs_num_center_frequencies = 1,
           defs_center_frequencies = ''700.00 MHz'',
           defs_acquisition_plan = [],
           defs_min_duration_ms = 100,
           defs_total_samples = 100,
           defs_filesize_mb = 1 / 1250 \<rparr>"]
  by (simp add: description_def described_action_def one_step_list_def py_int_def Let_def)

end
